theory Spec2Isabelle
  imports Main "HOL-Library.Sublist" "HOL-Library.Char_ord" "HOL-Library.List_Lexorder"
    "HOL-Library.Multiset"
begin

section \<open>The sdist build path: \<open>resolve_prototype/sdist.py\<close>\<close>

text \<open>
  The module is modelled as the sequential program that one awaited call of
  \<open>build_sdist\<close> is: \<open>to_thread\<close> runs its function and returns its result, and
  every effect on the world outside (the cache, the log, the network, the archive, the
  subprocesses) is a step of an explicit state.
\<close>

subsection \<open>Values\<close>

type_synonym path = string

text \<open>\<open>pypi_releases.File\<close>: the two fields that \<open>sdist.py\<close> reads.\<close>

record release_file =
  filename :: string
  url :: string

text \<open>
  The exceptions that \<open>sdist.py\<close> raises, catches or lets through.
  \<open>CalledProcessError\<close> carries the return code and the command;
  \<open>ValueError\<close> is the failed unpacking of a one-element list pattern;
  \<open>OtherError\<close> is any other exception raised by a library call (transport, archive,
  build library, metadata reader, parser), given by the name of its class. Exception
  chaining (\<open>from e\<close>, \<open>from None\<close>) is not modelled.
\<close>

datatype unpack_mismatch = NotEnoughValues | TooManyValues

datatype exn =
    CalledProcessError int "string list"
  | ValueError unpack_mismatch
  | RuntimeError string
  | OtherError string

text \<open>The class of an exception, which is what an \<open>except\<close> clause matches on.\<close>

fun exception_class :: "exn \<Rightarrow> string" where
  "exception_class (CalledProcessError _ _) = ''CalledProcessError''"
| "exception_class (ValueError _) = ''ValueError''"
| "exception_class (RuntimeError _) = ''RuntimeError''"
| "exception_class (OtherError c) = c"

text \<open>\<open>subprocess.CompletedProcess\<close> with \<open>text=True, capture_output=True\<close>.\<close>

record completed_process =
  returncode :: int
  p_stdout :: string
  p_stderr :: string

text \<open>\<open>ProjectHooksCaptureOutput\<close>: both attributes start as the empty string.\<close>

record capture =
  stdout :: string
  stderr :: string

definition new_capture :: capture where
  "new_capture = \<lparr>stdout = [], stderr = []\<rparr>"

text \<open>
  One subprocess as \<open>run\<close> was called for it: the command, the working directory, the
  \<open>extra_environ\<close> the caller of the runner supplied, and the environment passed as
  \<open>env=\<close>.
\<close>

record launch =
  l_cmd :: "string list"
  l_cwd :: "path option"
  l_extra :: "(string \<rightharpoonup> string) option"
  l_env :: "string \<rightharpoonup> string"

datatype log_record = Info string | Warning string | Error string

subsection \<open>The cache\<close>

text \<open>
  Modelled from the spec: the class \<open>Cache\<close> of \<open>resolve_prototype.common\<close>, which is
  not among the sources; \<open>sdist.py\<close> only calls its \<open>get\<close> and \<open>set\<close>, and the tests
  construct it as \<open>Cache(dir, read=..., write=...)\<close>. The spec: "keyed lookup and insert
  over a two-level (namespace, key) store. Supports read-only mode (skip writes) and
  disabled mode (skip both)."
\<close>

record cache =
  cache_read :: bool
  cache_write :: bool
  store :: "string \<times> string \<rightharpoonup> string"

definition cache_get :: "cache \<Rightarrow> string \<Rightarrow> string \<Rightarrow> string option" where
  "cache_get c namespace key = (if cache_read c then store c (namespace, key) else None)"

definition cache_set :: "cache \<Rightarrow> string \<Rightarrow> string \<Rightarrow> string \<Rightarrow> cache" where
  "cache_set c namespace key v =
     (if cache_write c then c\<lparr>store := (store c)((namespace, key) \<mapsto> v)\<rparr> else c)"

subsection \<open>The world outside the module\<close>

text \<open>
  What the build library does with the runner it is given: it either finishes, by
  raising or by returning with the metadata directory holding the listed entries, or it
  invokes the runner on a command and continues according to what the runner did
  (returned, or raised).
\<close>

datatype builder =
    Finish "exn + string list"
  | Invoke "string list" "path option" "(string \<rightharpoonup> string) option" "exn + unit \<Rightarrow> builder"

text \<open>
  The collaborators of \<open>sdist.py\<close>, as parameters: the process environment and the
  operating system (\<open>os.environ\<close>, \<open>subprocess.run\<close>, \<open>TemporaryDirectory\<close>), the
  transport (\<open>client.stream\<close>), \<open>shutil.unpack_archive\<close> followed by the listing of the
  extraction directory (the names of its top-level entries), \<open>ProjectBuilder(...).metadata_path\<close>,
  \<open>Distribution.at(...).metadata.json\<close>, \<open>json.dumps\<close>, \<open>pypi_metadata.parse_metadata\<close>,
  and the renderings that only reach messages (\<open>str\<close> of a \<open>CalledProcessError\<close>,
  the formatting of \<open>requires_dist\<close>, \<open>repr\<close> of a string).
\<close>

record ('j, 'm) sdist_env =
  os_environ :: "string \<rightharpoonup> string"
  run :: "string list \<Rightarrow> path option \<Rightarrow> (string \<rightharpoonup> string) \<Rightarrow> exn + completed_process"
  mkdtemp :: path
  user_agent :: string
  http_stream :: "string \<Rightarrow> exn + string"
  unpack_archive :: "string \<Rightarrow> exn + string list"
  project_builder :: "path \<Rightarrow> path \<Rightarrow> builder"
  metadata_json :: "path \<Rightarrow> exn + 'j"
  json_dumps :: "'j \<Rightarrow> string"
  parse_metadata :: "string \<Rightarrow> exn + 'm"
  str_exn :: "exn \<Rightarrow> string"
  str_requires_dist :: "'m \<Rightarrow> string"
  repr_str :: "string \<Rightarrow> string"

text \<open>
  The state that \<open>sdist.py\<close> changes: the cache, the log, and the traces of the three
  kinds of outside effect (requests sent, archives unpacked, subprocesses launched).
\<close>

record world =
  the_cache :: cache
  log :: "log_record list"
  requests :: "(string \<times> string \<times> (string \<times> string) list) list"
  unpacked :: "(path \<times> path) list"
  processes :: "launch list"

definition logger :: "log_record \<Rightarrow> world \<Rightarrow> world" where
  "logger r w = w\<lparr>log := log w @ [r]\<rparr>"

subsection \<open>Strings and paths\<close>

definition nl :: string where
  "nl = [CHR 0x0A]"

text \<open>
  \<open>Path(p).joinpath(name)\<close> for a directory \<open>p\<close> written without a trailing slash: an
  absolute \<open>name\<close> replaces \<open>p\<close>, an empty one leaves it.
\<close>

definition joinpath :: "path \<Rightarrow> string \<Rightarrow> path" where
  "joinpath p name =
     (case name of
        [] \<Rightarrow> p
      | c # _ \<Rightarrow> if c = CHR ''/'' then name else p @ ''/'' @ name)"

definition endswith :: "string \<Rightarrow> string \<Rightarrow> bool" where
  "endswith s suf = (length suf \<le> length s \<and> drop (length s - length suf) s = suf)"

text \<open>The ASCII characters that \<open>str.strip\<close> removes.\<close>

definition is_space :: "char \<Rightarrow> bool" where
  "is_space c =
     (c \<in> set [CHR '' '', CHR 0x09, CHR 0x0A, CHR 0x0B, CHR 0x0C, CHR 0x0D,
               CHR 0x1C, CHR 0x1D, CHR 0x1E, CHR 0x1F])"

definition strip :: "string \<Rightarrow> string" where
  "strip s = rev (dropWhile is_space (rev (dropWhile is_space s)))"

text \<open>
  \<open>str(list(extracted.iterdir()))\<close> on a POSIX system: each path is written as
  \<open>PosixPath(...)\<close> around the \<open>repr\<close> of its string.
\<close>

fun intercalate :: "string \<Rightarrow> string list \<Rightarrow> string" where
  "intercalate sep [] = []"
| "intercalate sep [x] = x"
| "intercalate sep (x # y # ys) = x @ sep @ intercalate sep (y # ys)"

definition str_path_list :: "('j, 'm) sdist_env \<Rightarrow> path list \<Rightarrow> string" where
  "str_path_list E ps =
     ''['' @ intercalate '', '' (map (\<lambda>p. ''PosixPath('' @ repr_str E p @ '')'') ps) @ '']''"

subsection \<open>\<open>ProjectHooksCaptureOutput.subprocess_runner\<close>\<close>

text \<open>
  \<open>env = os.environ.copy(); if extra_environ: env.update(extra_environ)\<close>: an absent
  and an empty \<open>extra_environ\<close> both leave the copy as it is, and updating with an empty
  dictionary changes nothing, so one case distinction suffices. \<open>run\<close> itself may raise
  (a command that cannot be started); then nothing is captured.
\<close>

definition subprocess_runner ::
  "('j, 'm) sdist_env \<Rightarrow> string list \<Rightarrow> path option \<Rightarrow> (string \<rightharpoonup> string) option \<Rightarrow>
   capture \<Rightarrow> (exn + unit) \<times> capture \<times> launch" where
  "subprocess_runner E cmd cwd extra_environ self =
     (let env = (case extra_environ of None \<Rightarrow> os_environ E | Some x \<Rightarrow> os_environ E ++ x);
          launched = \<lparr>l_cmd = cmd, l_cwd = cwd, l_extra = extra_environ, l_env = env\<rparr>
      in case run E cmd cwd env of
           Inl e \<Rightarrow> (Inl e, self, launched)
         | Inr result \<Rightarrow>
             (let self' = self\<lparr>stdout := stdout self @ p_stdout result,
                              stderr := stderr self @ p_stderr result\<rparr>
              in if returncode result \<noteq> 0
                 then (Inl (CalledProcessError (returncode result) cmd), self', launched)
                 else (Inr (), self', launched)))"

text \<open>
  The build library running against the runner: the outcome of the library call, the
  capture afterwards, and the subprocesses launched, in order.
\<close>

primrec run_builder ::
  "('j, 'm) sdist_env \<Rightarrow> builder \<Rightarrow> capture \<Rightarrow> (exn + string list) \<times> capture \<times> launch list" where
  "run_builder E (Finish r) = (\<lambda>self. (r, self, []))"
| "run_builder E (Invoke cmd cwd extra_environ k) =
     (\<lambda>self. case subprocess_runner E cmd cwd extra_environ self of
                (r, self', launched) \<Rightarrow>
                  (case run_builder E (k r) self' of
                     (outcome, self'', later) \<Rightarrow> (outcome, self'', launched # later)))"

text \<open>
  The reference for the runner, written from what it is required to do and independent
  of \<open>subprocess_runner\<close>: the environment a subprocess must get is the inherited one
  updated with the overrides of the call; what the library is told is the exception of
  \<open>run\<close>, or \<open>CalledProcessError\<close> for a non-zero exit status, or nothing; what is
  to be captured is the output of that subprocess. \<open>hook_calls\<close> follows the library
  along these answers and lists the calls it makes of its runner, in order.
\<close>

definition inherited_with_overrides ::
  "('j, 'm) sdist_env \<Rightarrow> (string \<rightharpoonup> string) option \<Rightarrow> (string \<rightharpoonup> string)" where
  "inherited_with_overrides E extra_environ =
     (case extra_environ of None \<Rightarrow> os_environ E | Some x \<Rightarrow> os_environ E ++ x)"

type_synonym hook_call = "string list \<times> path option \<times> (string \<rightharpoonup> string) option"

fun hook_outcome :: "('j, 'm) sdist_env \<Rightarrow> hook_call \<Rightarrow> exn + unit" where
  "hook_outcome E (cmd, cwd, extra_environ) =
     (case run E cmd cwd (inherited_with_overrides E extra_environ) of
        Inl e \<Rightarrow> Inl e
      | Inr result \<Rightarrow>
          if returncode result = 0 then Inr ()
          else Inl (CalledProcessError (returncode result) cmd))"

fun hook_stdout :: "('j, 'm) sdist_env \<Rightarrow> hook_call \<Rightarrow> string" where
  "hook_stdout E (cmd, cwd, extra_environ) =
     (case run E cmd cwd (inherited_with_overrides E extra_environ) of
        Inl e \<Rightarrow> []
      | Inr result \<Rightarrow> p_stdout result)"

fun hook_stderr :: "('j, 'm) sdist_env \<Rightarrow> hook_call \<Rightarrow> string" where
  "hook_stderr E (cmd, cwd, extra_environ) =
     (case run E cmd cwd (inherited_with_overrides E extra_environ) of
        Inl e \<Rightarrow> []
      | Inr result \<Rightarrow> p_stderr result)"

fun expected_launch :: "('j, 'm) sdist_env \<Rightarrow> hook_call \<Rightarrow> launch" where
  "expected_launch E (cmd, cwd, extra_environ) =
     \<lparr>l_cmd = cmd, l_cwd = cwd, l_extra = extra_environ,
      l_env = inherited_with_overrides E extra_environ\<rparr>"

primrec hook_calls :: "('j, 'm) sdist_env \<Rightarrow> builder \<Rightarrow> hook_call list" where
  "hook_calls E (Finish r) = []"
| "hook_calls E (Invoke cmd cwd extra_environ k) =
     (cmd, cwd, extra_environ) # hook_calls E (k (hook_outcome E (cmd, cwd, extra_environ)))"

subsection \<open>\<open>build_sdist_impl\<close>\<close>

definition build_failure_message :: "('j, 'm) sdist_env \<Rightarrow> release_file \<Rightarrow> exn \<Rightarrow> capture \<Rightarrow> string" where
  "build_failure_message E f e c =
     ''Failed to build metadata for '' @ filename f @ '': '' @ str_exn E e @ nl @
     ''--- Stdout:'' @ nl @ stdout c @ nl @
     ''--- Stderr:'' @ nl @ stderr c @ nl @
     ''---'' @ nl"

definition stderr_warning :: "release_file \<Rightarrow> capture \<Rightarrow> string" where
  "stderr_warning f c =
     ''Messages from building '' @ filename f @ '':'' @ nl @ ''--- stderr:'' @ nl @
     strip (stderr c) @ nl @ ''---'' @ nl"

text \<open>Lines 125 to 129: after the backend has returned.\<close>

definition read_dist_info ::
  "('j, 'm) sdist_env \<Rightarrow> release_file \<Rightarrow> path \<Rightarrow> string list \<Rightarrow> world \<Rightarrow> (exn + 'j) \<times> world" where
  "read_dist_info E f metadata_dir listing w =
     (let w1 = logger (Info (''Finished '' @ filename f)) w
      in case filter (\<lambda>x. endswith x ''.dist-info'') listing of
           [] \<Rightarrow> (Inl (ValueError NotEnoughValues), w1)
         | [dist_info] \<Rightarrow> (metadata_json E (joinpath metadata_dir dist_info), w1)
         | _ # _ # _ \<Rightarrow> (Inl (ValueError TooManyValues), w1))"

text \<open>Lines 104 to 124: the build backend, run with a fresh capture.\<close>

definition build_metadata ::
  "('j, 'm) sdist_env \<Rightarrow> release_file \<Rightarrow> path \<Rightarrow> path \<Rightarrow> world \<Rightarrow> (exn + 'j) \<times> world" where
  "build_metadata E f tempdir src_dir w =
     (let w1 = logger (Info (''Building '' @ filename f)) w;
          metadata_dir = joinpath tempdir ''metadata''
      in case run_builder E (project_builder E src_dir metadata_dir) new_capture of
           (outcome, c, launched) \<Rightarrow>
             (let w2 = w1\<lparr>processes := processes w1 @ launched\<rparr>
              in case outcome of
                   Inl (CalledProcessError rc cmd) \<Rightarrow>
                     (Inl (RuntimeError (build_failure_message E f (CalledProcessError rc cmd) c)), w2)
                 | Inl e \<Rightarrow> (Inl e, w2)
                 | Inr listing \<Rightarrow>
                     read_dist_info E f metadata_dir listing
                       (if stderr c \<noteq> [] then logger (Warning (stderr_warning f c)) w2 else w2)))"

text \<open>Lines 89 to 103: download, unpack, and the single top-level entry.\<close>

definition build_sdist_impl ::
  "('j, 'm) sdist_env \<Rightarrow> release_file \<Rightarrow> path \<Rightarrow> world \<Rightarrow> (exn + 'j) \<times> world" where
  "build_sdist_impl E f tempdir w =
     (let w1 = logger (Info (''Downloading '' @ filename f)) w;
          downloaded_file = joinpath tempdir (filename f);
          w2 = w1\<lparr>requests := requests w1 @ [(''GET'', url f, [(''user-agent'', user_agent E)])]\<rparr>
      in case http_stream E (url f) of
           Inl e \<Rightarrow> (Inl e, w2)
         | Inr content \<Rightarrow>
             (let w3 = logger (Info (''Extracting '' @ filename f)) w2;
                  extracted = joinpath tempdir ''extracted'';
                  w4 = w3\<lparr>unpacked := unpacked w3 @ [(downloaded_file, extracted)]\<rparr>
              in case unpack_archive E content of
                   Inl e \<Rightarrow> (Inl e, w4)
                 | Inr entries \<Rightarrow>
                     (case entries of
                        [] \<Rightarrow> (Inl (ValueError NotEnoughValues),
                               logger (Error (str_path_list E (map (joinpath extracted) entries))) w4)
                      | [src_dir] \<Rightarrow> build_metadata E f tempdir (joinpath extracted src_dir) w4
                      | _ # _ # _ \<Rightarrow> (Inl (ValueError TooManyValues),
                               logger (Error (str_path_list E (map (joinpath extracted) entries))) w4))))"

subsection \<open>\<open>build_sdist\<close>\<close>

definition parse_failure_message :: "release_file \<Rightarrow> string" where
  "parse_failure_message f =
     ''Failed to parse sdist built metadata for '' @ filename f @ '', this is most likely a bug''"

text \<open>Lines 77 to 85.\<close>

definition parse_built_metadata ::
  "('j, 'm) sdist_env \<Rightarrow> release_file \<Rightarrow> string \<Rightarrow> world \<Rightarrow> (exn + 'm) \<times> world" where
  "parse_built_metadata E f metadata w =
     (case parse_metadata E metadata of
        Inl e \<Rightarrow> (Inl (RuntimeError (parse_failure_message f)), w)
      | Inr m \<Rightarrow> (Inr m, logger (Info (''sdist '' @ filename f @ '' '' @ str_requires_dist E m)) w))"

text \<open>
  \<open>if metadata := cache.get(...)\<close> tests the truth value of what the cache returned:
  \<open>None\<close> and the empty string both take the \<open>else\<close> branch.
\<close>

definition cache_key :: "release_file \<Rightarrow> string" where
  "cache_key f = filename f @ ''.METADATA.json''"

definition cache_hit :: "cache \<Rightarrow> release_file \<Rightarrow> string option" where
  "cache_hit c f =
     (case cache_get c ''sdist_build_metadata'' (cache_key f) of
        None \<Rightarrow> None
      | Some v \<Rightarrow> if v = [] then None else Some v)"

definition build_sdist ::
  "('j, 'm) sdist_env \<Rightarrow> release_file \<Rightarrow> world \<Rightarrow> (exn + 'm) \<times> world" where
  "build_sdist E f w =
     (case cache_hit (the_cache w) f of
        Some metadata \<Rightarrow>
          parse_built_metadata E f metadata
            (logger (Info (''Using cached json metadata for '' @ filename f)) w)
      | None \<Rightarrow>
          (case build_sdist_impl E f (mkdtemp E) w of
             (Inl e, w1) \<Rightarrow> (Inl e, w1)
           | (Inr json_metadata, w1) \<Rightarrow>
               parse_built_metadata E f (json_dumps E json_metadata)
                 (w1\<lparr>the_cache := cache_set (the_cache w1) ''sdist_build_metadata''
                                    (cache_key f) (json_dumps E json_metadata)\<rparr>)))"

section \<open>Requirement fixup\<close>

text \<open>
  Modelled from the spec: \<open>parse_requirement_fixup\<close> of \<open>resolve_prototype.resolve\<close>,
  which is not among the sources (its test \<open>test_parse_requirement_fixup\<close> is). The spec:
  the function "accepts a raw requirement string plus a context string used solely for
  diagnostics, tries strict parsing, and on failure applies one repair: insert a comma
  between adjacent bound tokens where a comparator follows a numeric release segment
  without separator. If the repaired string parses, emit a warning that names the
  original string and the context; otherwise surface the original parse error. No other
  repairs are attempted." The repair is read at the level of characters: a comma goes
  wherever a digit is directly followed by a comparator character. The text of the
  warning is the one the test expects. The strict parser is an external library and a
  parameter here.
\<close>

definition is_digit :: "char \<Rightarrow> bool" where
  "is_digit c = (c \<in> set ''0123456789'')"

definition is_comparator :: "char \<Rightarrow> bool" where
  "is_comparator c = (c \<in> set ''<>=!~'')"

fun add_missing_comma :: "string \<Rightarrow> string" where
  "add_missing_comma (c # d # cs) =
     (if is_digit c \<and> is_comparator d then c # CHR '','' # add_missing_comma (d # cs)
      else c # add_missing_comma (d # cs))"
| "add_missing_comma cs = cs"

definition missing_comma_warning :: "string \<Rightarrow> string \<Rightarrow> string" where
  "missing_comma_warning requirement debug_source =
     ''Requirement `'' @ requirement @ ''` for '' @ debug_source @ '' is invalid (missing comma)''"

definition parse_requirement_fixup ::
  "(string \<Rightarrow> 'e + 'r) \<Rightarrow> string \<Rightarrow> string \<Rightarrow> ('e + 'r) \<times> string list" where
  "parse_requirement_fixup parse requirement debug_source =
     (case parse requirement of
        Inr r \<Rightarrow> (Inr r, [])
      | Inl e \<Rightarrow>
          (case parse (add_missing_comma requirement) of
             Inr r \<Rightarrow> (Inr r, [missing_comma_warning requirement debug_source])
           | Inl _ \<Rightarrow> (Inl e, [])))"

subsection \<open>A strict parser for the instances\<close>

text \<open>
  The closed instances below need some strict parser to run. This one reads the fragment
  of the requirement grammar that the test uses: a name, then optionally a
  comma-separated list of version specifiers, in parentheses or not, each an operator
  followed by a dotted sequence of numbers. It stands in for the external parser only in
  those instances; every general statement is about an arbitrary parser.
\<close>

record requirement =
  name :: string
  version_or_url :: "(string \<times> string) list"

definition is_name_char :: "char \<Rightarrow> bool" where
  "is_name_char c =
     (is_digit c \<or> c \<in> set ''abcdefghijklmnopqrstuvwxyzABCDEFGHIJKLMNOPQRSTUVWXYZ-_.'')"

fun split_on :: "char \<Rightarrow> string \<Rightarrow> string list" where
  "split_on sep [] = [[]]"
| "split_on sep (c # cs) =
     (if c = sep then [] # split_on sep cs
      else (case split_on sep cs of [] \<Rightarrow> [[c]] | p # ps \<Rightarrow> (c # p) # ps))"

definition valid_version :: "string \<Rightarrow> bool" where
  "valid_version v = list_all (\<lambda>seg. seg \<noteq> [] \<and> list_all is_digit seg) (split_on (CHR ''.'') v)"

definition operators :: "string list" where
  "operators = [''==='', ''=='', ''>='', ''<='', ''!='', ''~='', ''<'', ''>'']"

definition parse_specifier :: "string \<Rightarrow> (string \<times> string) option" where
  "parse_specifier s =
     (let t = strip s; oper = takeWhile is_comparator t; v = strip (dropWhile is_comparator t)
      in if oper \<in> set operators \<and> valid_version v then Some (oper, v) else None)"

fun parse_specifiers :: "string list \<Rightarrow> (string \<times> string) list option" where
  "parse_specifiers [] = Some []"
| "parse_specifiers (s # ss) =
     (case parse_specifier s of
        None \<Rightarrow> None
      | Some x \<Rightarrow> (case parse_specifiers ss of None \<Rightarrow> None | Some xs \<Rightarrow> Some (x # xs)))"

definition unparenthesise :: "string \<Rightarrow> string" where
  "unparenthesise s =
     (case s of
        [] \<Rightarrow> []
      | c # cs \<Rightarrow> if c = CHR ''('' \<and> cs \<noteq> [] \<and> last cs = CHR '')'' then butlast cs else s)"

definition strict_parse :: "string \<Rightarrow> string + requirement" where
  "strict_parse s =
     (let t = strip s; n = takeWhile is_name_char t; rest = strip (dropWhile is_name_char t)
      in if n = [] then Inl ''expected a package name''
         else if rest = [] then Inr \<lparr>name = n, version_or_url = []\<rparr>
         else (case parse_specifiers (split_on (CHR '','') (unparenthesise rest)) of
                 None \<Rightarrow> Inl ''invalid version specifier''
               | Some specs \<Rightarrow> Inr \<lparr>name = n, version_or_url = specs\<rparr>))"

section \<open>The order of a resolution\<close>










section \<open>Instances\<close>

text \<open>
  A concrete world to run the definitions in: one release file, an index that serves it,
  an archive with the given top-level entries, and a build library that invokes two
  hooks in a row and otherwise leaves the given entries in the metadata directory. As
  \<open>ProjectBuilder\<close> does, it stops at the first hook for which the runner raises and
  raises \<open>BuildBackendException\<close> in place of the runner's exception. The JSON metadata
  is kept as its list of requirements.
\<close>

definition foo_sdist :: release_file where
  "foo_sdist = \<lparr>filename = ''foo-1.0.tar.gz'', url = ''https://files.example/foo-1.0.tar.gz''\<rparr>"

definition two_hooks :: "string list \<Rightarrow> path \<Rightarrow> path \<Rightarrow> builder" where
  "two_hooks listing src_dir metadata_dir =
     Invoke [''python'', ''get_requires_for_build_wheel''] (Some src_dir) None
       (\<lambda>r. case r of
          Inl e \<Rightarrow> Finish (Inl (OtherError ''BuildBackendException''))
        | Inr _ \<Rightarrow>
            Invoke [''python'', ''prepare_metadata_for_build_wheel''] (Some src_dir)
              (Some [''PEP517_BUILD_BACKEND'' \<mapsto> ''setuptools.build_meta''])
              (\<lambda>r. case r of
                 Inl e \<Rightarrow> Finish (Inl (OtherError ''BuildBackendException''))
               | Inr _ \<Rightarrow> Finish (Inr listing)))"

definition hook_result :: "int \<Rightarrow> string list \<Rightarrow> completed_process" where
  "hook_result code cmd =
     (if cmd = [''python'', ''get_requires_for_build_wheel'']
      then \<lparr>returncode = 0, p_stdout = ''requires; '', p_stderr = []\<rparr>
      else \<lparr>returncode = code, p_stdout = ''prepare; '', p_stderr = ''warning: no license; ''\<rparr>)"

definition example_env ::
  "int \<Rightarrow> string list \<Rightarrow> string list \<Rightarrow> string list \<Rightarrow> (string list, string list) sdist_env" where
  "example_env code entries listing requires =
     \<lparr>os_environ = [''PATH'' \<mapsto> ''/usr/bin''],
      run = (\<lambda>cmd cwd env. Inr (hook_result code cmd)),
      mkdtemp = ''/tmp/tmp0'',
      user_agent = ''resolve-prototype'',
      http_stream = (\<lambda>u. if u = url foo_sdist then Inr ''sdist'' else Inl (OtherError ''HTTPStatusError'')),
      unpack_archive = (\<lambda>content. Inr entries),
      project_builder = two_hooks listing,
      metadata_json = (\<lambda>p. Inr requires),
      json_dumps = (\<lambda>j. ''['' @ intercalate '', '' j @ '']''),
      parse_metadata = (\<lambda>s. if s = ''[]'' then Inl (OtherError ''ValidationError'') else Inr [s]),
      str_exn = exception_class,
      str_requires_dist = (\<lambda>m. intercalate '', '' m),
      repr_str = (\<lambda>s. [CHR 0x27] @ s @ [CHR 0x27])\<rparr>"

text \<open>
  The two subprocesses of that build library under \<open>/tmp/tmp0\<close>, as the runner launches
  them, and what it has captured after both.
\<close>

definition first_hook :: launch where
  "first_hook =
     \<lparr>l_cmd = [''python'', ''get_requires_for_build_wheel''],
      l_cwd = Some ''/tmp/tmp0/extracted/foo-1.0'',
      l_extra = None,
      l_env = [''PATH'' \<mapsto> ''/usr/bin'']\<rparr>"

definition second_hook :: launch where
  "second_hook =
     \<lparr>l_cmd = [''python'', ''prepare_metadata_for_build_wheel''],
      l_cwd = Some ''/tmp/tmp0/extracted/foo-1.0'',
      l_extra = Some [''PEP517_BUILD_BACKEND'' \<mapsto> ''setuptools.build_meta''],
      l_env = [''PATH'' \<mapsto> ''/usr/bin'', ''PEP517_BUILD_BACKEND'' \<mapsto> ''setuptools.build_meta'']\<rparr>"

definition both_outputs :: capture where
  "both_outputs = \<lparr>stdout = ''requires; prepare; '', stderr = ''warning: no license; ''\<rparr>"

definition empty_cache :: cache where
  "empty_cache = \<lparr>cache_read = True, cache_write = True, store = Map.empty\<rparr>"

definition new_world :: world where
  "new_world = \<lparr>the_cache = empty_cache, log = [], requests = [], unpacked = [], processes = []\<rparr>"

text \<open>The world whose cache already holds the given string for \<open>foo_sdist\<close>.\<close>

definition cached_world :: "string \<Rightarrow> world" where
  "cached_world metadata =
     new_world\<lparr>the_cache := cache_set empty_cache ''sdist_build_metadata''
                                ''foo-1.0.tar.gz.METADATA.json'' metadata\<rparr>"

section \<open>Properties\<close>

subsection \<open>Projections of the build\<close>

lemma read_dist_info_fst:
  "fst (read_dist_info E f metadata_dir listing w) =
     (case filter (\<lambda>x. endswith x ''.dist-info'') listing of
        [] \<Rightarrow> Inl (ValueError NotEnoughValues)
      | [d] \<Rightarrow> metadata_json E (joinpath metadata_dir d)
      | _ # _ # _ \<Rightarrow> Inl (ValueError TooManyValues))"
  by (simp add: read_dist_info_def Let_def split: list.splits)

lemma read_dist_info_snd:
  "snd (read_dist_info E f metadata_dir listing w) = logger (Info (''Finished '' @ filename f)) w"
  by (simp add: read_dist_info_def Let_def split: list.splits)

lemma build_metadata_fst_indep:
  "fst (build_metadata E f tempdir src_dir w) = fst (build_metadata E f tempdir src_dir w')"
  by (simp add: build_metadata_def Let_def read_dist_info_fst split: prod.splits sum.splits exn.splits)

subsection \<open>The runner and the build library\<close>

lemma subprocess_runner_refines:
  "subprocess_runner E cmd cwd extra self =
     (hook_outcome E (cmd, cwd, extra),
      self\<lparr>stdout := stdout self @ hook_stdout E (cmd, cwd, extra),
           stderr := stderr self @ hook_stderr E (cmd, cwd, extra)\<rparr>,
      expected_launch E (cmd, cwd, extra))"
  by (simp add: subprocess_runner_def inherited_with_overrides_def Let_def split: sum.splits)

lemma run_builder_refines:
  "snd (run_builder E b self) =
     (self\<lparr>stdout := stdout self @ concat (map (hook_stdout E) (hook_calls E b)),
           stderr := stderr self @ concat (map (hook_stderr E) (hook_calls E b))\<rparr>,
      map (expected_launch E) (hook_calls E b))"
proof (induction b arbitrary: self)
  case (Finish r)
  show ?case by simp
next
  case (Invoke cmd cwd extra k)
  let ?r = "hook_outcome E (cmd, cwd, extra)"
  let ?self = "self\<lparr>stdout := stdout self @ hook_stdout E (cmd, cwd, extra),
                    stderr := stderr self @ hook_stderr E (cmd, cwd, extra)\<rparr>"
  have step: "snd (run_builder E (Invoke cmd cwd extra k) self) =
        (fst (snd (run_builder E (k ?r) ?self)),
         expected_launch E (cmd, cwd, extra) # snd (snd (run_builder E (k ?r) ?self)))"
    by (simp add: subprocess_runner_refines split: prod.splits)
  have ih: "snd (run_builder E (k ?r) ?self) =
     (?self\<lparr>stdout := stdout ?self @ concat (map (hook_stdout E) (hook_calls E (k ?r))),
           stderr := stderr ?self @ concat (map (hook_stderr E) (hook_calls E (k ?r)))\<rparr>,
      map (expected_launch E) (hook_calls E (k ?r)))"
    by (rule Invoke.IH) (rule rangeI)
  show ?case
    unfolding step ih by simp
qed

subsection \<open>Effects and outcomes of the build\<close>

lemma build_metadata_effects:
  "processes (snd (build_metadata E f tempdir src_dir w)) =
     processes w @ snd (snd (run_builder E (project_builder E src_dir (joinpath tempdir ''metadata'')) new_capture))
   \<and> requests (snd (build_metadata E f tempdir src_dir w)) = requests w
   \<and> unpacked (snd (build_metadata E f tempdir src_dir w)) = unpacked w
   \<and> the_cache (snd (build_metadata E f tempdir src_dir w)) = the_cache w"
  by (simp add: build_metadata_def Let_def read_dist_info_snd logger_def split: prod.splits sum.splits exn.splits)

lemma build_sdist_impl_fst:
  assumes "http_stream E (url f) = Inr content"
      and "unpack_archive E content = Inr [src_dir]"
  shows "fst (build_sdist_impl E f tempdir w) =
           fst (build_metadata E f tempdir (joinpath (joinpath tempdir ''extracted'') src_dir) w)"
  using assms
  by (simp add: build_sdist_impl_def logger_def Let_def) (rule build_metadata_fst_indep)

lemma build_sdist_impl_cache:
  "the_cache (snd (build_sdist_impl E f tempdir w)) = the_cache w"
  by (simp add: build_sdist_impl_def logger_def Let_def build_metadata_effects split: sum.splits list.splits)

lemma build_sdist_impl_processes:
  assumes "http_stream E (url f) = Inr content"
      and "unpack_archive E content = Inr [src_dir]"
  shows "processes (snd (build_sdist_impl E f tempdir w)) =
           processes w @ map (expected_launch E) (hook_calls E (project_builder E
              (joinpath (joinpath tempdir ''extracted'') src_dir) (joinpath tempdir ''metadata'')))"
  using assms
  by (simp add: build_sdist_impl_def logger_def Let_def build_metadata_effects run_builder_refines)

lemma build_metadata_returned:
  assumes "run_builder E (project_builder E src_dir (joinpath tempdir ''metadata'')) new_capture = (Inr listing, c, ls)"
  shows "fst (build_metadata E f tempdir src_dir w) =
     (case filter (\<lambda>x. endswith x ''.dist-info'') listing of
        [] \<Rightarrow> Inl (ValueError NotEnoughValues)
      | [d] \<Rightarrow> metadata_json E (joinpath (joinpath tempdir ''metadata'') d)
      | _ # _ # _ \<Rightarrow> Inl (ValueError TooManyValues))"
  using assms by (simp add: build_metadata_def Let_def read_dist_info_fst)

lemma build_metadata_called_process_error:
  assumes "run_builder E (project_builder E src_dir (joinpath tempdir ''metadata'')) new_capture
             = (Inl (CalledProcessError rc cmd), c, launched)"
  shows "fst (build_metadata E f tempdir src_dir w) =
           Inl (RuntimeError (build_failure_message E f (CalledProcessError rc cmd) c))"
  using assms by (simp add: build_metadata_def Let_def)

lemma build_metadata_other_error:
  assumes "run_builder E (project_builder E src_dir (joinpath tempdir ''metadata'')) new_capture
             = (Inl e, c, launched)"
      and "\<And>rc cmd. e \<noteq> CalledProcessError rc cmd"
  shows "fst (build_metadata E f tempdir src_dir w) = Inl e"
proof (cases e)
  case (CalledProcessError rc cmd)
  with assms(2) show ?thesis by blast
qed (simp_all add: assms(1) build_metadata_def Let_def)

subsection \<open>Messages\<close>

lemma sublist_middle: "sublist xs (ps @ xs @ ss)"
  by (auto simp: sublist_def)

lemma build_failure_message_names:
  "sublist (filename f) (build_failure_message E f e c)
   \<and> sublist (stdout c) (build_failure_message E f e c)
   \<and> sublist (stderr c) (build_failure_message E f e c)"
proof -
  let ?m = "build_failure_message E f e c"
  have 1: "?m = ''Failed to build metadata for '' @ filename f @
             ('': '' @ str_exn E e @ nl @ ''--- Stdout:'' @ nl @ stdout c @ nl @
              ''--- Stderr:'' @ nl @ stderr c @ nl @ ''---'' @ nl)"
    by (simp add: build_failure_message_def)
  have 2: "?m = (''Failed to build metadata for '' @ filename f @ '': '' @ str_exn E e @ nl @
              ''--- Stdout:'' @ nl) @ stdout c @ (nl @ ''--- Stderr:'' @ nl @ stderr c @ nl @ ''---'' @ nl)"
    by (simp add: build_failure_message_def)
  have 3: "?m = (''Failed to build metadata for '' @ filename f @ '': '' @ str_exn E e @ nl @
              ''--- Stdout:'' @ nl @ stdout c @ nl @ ''--- Stderr:'' @ nl) @ stderr c @ (nl @ ''---'' @ nl)"
    by (simp add: build_failure_message_def)
  show ?thesis
    using sublist_middle [of "filename f"] sublist_middle [of "stdout c"] sublist_middle [of "stderr c"]
    by (metis 1 2 3)
qed

lemma parse_failure_message_names: "sublist (filename f) (parse_failure_message f)"
  unfolding parse_failure_message_def by (rule sublist_middle)

lemma parse_failure_is_no_build_failure:
  "parse_failure_message f \<noteq> build_failure_message E f' e c"
  by (simp add: parse_failure_message_def build_failure_message_def)

subsection \<open>Cache hits and misses\<close>

lemma parse_built_metadata_fst:
  "fst (parse_built_metadata E f metadata w) =
     (case parse_metadata E metadata of
        Inl e \<Rightarrow> Inl (RuntimeError (parse_failure_message f))
      | Inr m \<Rightarrow> Inr m)"
  by (simp add: parse_built_metadata_def split: sum.splits)

lemma parse_built_metadata_effects:
  "requests (snd (parse_built_metadata E f metadata w)) = requests w
   \<and> unpacked (snd (parse_built_metadata E f metadata w)) = unpacked w
   \<and> processes (snd (parse_built_metadata E f metadata w)) = processes w
   \<and> the_cache (snd (parse_built_metadata E f metadata w)) = the_cache w"
  by (simp add: parse_built_metadata_def logger_def split: sum.splits)

lemma build_sdist_hit:
  assumes "cache_hit (the_cache w) f = Some metadata"
  shows "build_sdist E f w =
           parse_built_metadata E f metadata
             (logger (Info (''Using cached json metadata for '' @ filename f)) w)"
  using assms by (simp add: build_sdist_def)

lemma build_sdist_miss:
  assumes "cache_hit (the_cache w) f = None"
      and "build_sdist_impl E f (mkdtemp E) w = (Inr j, w1)"
  shows "build_sdist E f w =
           parse_built_metadata E f (json_dumps E j)
             (w1\<lparr>the_cache := cache_set (the_cache w) ''sdist_build_metadata''
                                (cache_key f) (json_dumps E j)\<rparr>)"
proof -
  have "the_cache w1 = the_cache w"
    using build_sdist_impl_cache [of E f "mkdtemp E" w] assms(2) by simp
  with assms show ?thesis by (simp add: build_sdist_def)
qed

lemma cache_hit_iff:
  "cache_hit c f = Some metadata \<longleftrightarrow>
     cache_get c ''sdist_build_metadata'' (filename f @ ''.METADATA.json'') = Some metadata \<and> metadata \<noteq> []"
  by (auto simp: cache_hit_def cache_key_def split: option.splits if_splits)

lemma build_sdist_hit_effects:
  assumes "cache_hit (the_cache w) f = Some metadata"
  shows "fst (build_sdist E f w) =
           (case parse_metadata E metadata of
              Inl e \<Rightarrow> Inl (RuntimeError (parse_failure_message f))
            | Inr m \<Rightarrow> Inr m)
       \<and> requests (snd (build_sdist E f w)) = requests w
       \<and> unpacked (snd (build_sdist E f w)) = unpacked w
       \<and> processes (snd (build_sdist E f w)) = processes w
       \<and> the_cache (snd (build_sdist E f w)) = the_cache w"
  by (simp add: build_sdist_hit [OF assms] parse_built_metadata_fst parse_built_metadata_effects
        logger_def)

lemma build_sdist_populates:
  assumes "cache_hit (the_cache w) f = None"
      and "build_sdist_impl E f (mkdtemp E) w = (Inr j, w1)"
      and "cache_write (the_cache w)"
  shows "store (the_cache (snd (build_sdist E f w))) (''sdist_build_metadata'', cache_key f)
           = Some (json_dumps E j)
       \<and> cache_read (the_cache (snd (build_sdist E f w))) = cache_read (the_cache w)"
  using assms(3)
  by (simp add: build_sdist_miss [OF assms(1,2)] parse_built_metadata_effects cache_set_def)

lemma build_sdist_failed:
  assumes "cache_hit (the_cache w) f = None"
      and "build_sdist_impl E f (mkdtemp E) w = (Inl e, w1)"
  shows "fst (build_sdist E f w) = Inl e \<and> the_cache (snd (build_sdist E f w)) = the_cache w"
  using assms build_sdist_impl_cache [of E f "mkdtemp E" w]
  by (simp add: build_sdist_def)

subsection \<open>The instances, evaluated\<close>

lemmas example_defs =
  build_sdist_def build_sdist_impl_def build_metadata_def read_dist_info_def
  parse_built_metadata_def cache_hit_def cache_key_def cache_get_def cache_set_def logger_def
  example_env_def foo_sdist_def new_world_def empty_cache_def cached_world_def
  two_hooks_def hook_result_def subprocess_runner_def new_capture_def joinpath_def endswith_def
  build_failure_message_def parse_failure_message_def stderr_warning_def strip_def is_space_def
  nl_def Let_def

lemma example_run_builder:
  "run_builder (example_env code entries listing requires)
     (project_builder (example_env code entries listing requires)
        (joinpath (joinpath ''/tmp/tmp0'' ''extracted'') ''foo-1.0'') (joinpath ''/tmp/tmp0'' ''metadata''))
     new_capture =
   (if code = 0 then Inr listing else Inl (OtherError ''BuildBackendException''),
    both_outputs, [first_hook, second_hook])"
  by (simp add: example_env_def two_hooks_def subprocess_runner_def hook_result_def Let_def
        new_capture_def both_outputs_def first_hook_def second_hook_def joinpath_def)

lemma example_hook_calls:
  "hook_calls (example_env code entries listing requires)
     (project_builder (example_env code entries listing requires)
        (joinpath (joinpath ''/tmp/tmp0'' ''extracted'') ''foo-1.0'') (joinpath ''/tmp/tmp0'' ''metadata''))
   = [([''python'', ''get_requires_for_build_wheel''], Some ''/tmp/tmp0/extracted/foo-1.0'', None),
      ([''python'', ''prepare_metadata_for_build_wheel''], Some ''/tmp/tmp0/extracted/foo-1.0'',
       Some [''PEP517_BUILD_BACKEND'' \<mapsto> ''setuptools.build_meta''])]"
  by (simp add: example_env_def two_hooks_def hook_result_def joinpath_def
        inherited_with_overrides_def)

lemma example_build_sdist_impl:
  "build_sdist_impl (example_env 0 [''foo-1.0''] [''foo-1.0.dist-info''] requires) foo_sdist
     (mkdtemp (example_env 0 [''foo-1.0''] [''foo-1.0.dist-info''] requires)) new_world
   = (Inr requires,
      snd (build_sdist_impl (example_env 0 [''foo-1.0''] [''foo-1.0.dist-info''] requires) foo_sdist
        (mkdtemp (example_env 0 [''foo-1.0''] [''foo-1.0.dist-info''] requires)) new_world))"
  by (simp add: example_defs prod_eq_iff)

lemma example_build_sdist_impl_failed:
  "build_sdist_impl (example_env 1 [''foo-1.0''] [''foo-1.0.dist-info''] requires) foo_sdist
     (mkdtemp (example_env 1 [''foo-1.0''] [''foo-1.0.dist-info''] requires)) new_world
   = (Inl (OtherError ''BuildBackendException''),
      snd (build_sdist_impl (example_env 1 [''foo-1.0''] [''foo-1.0.dist-info''] requires) foo_sdist
        (mkdtemp (example_env 1 [''foo-1.0''] [''foo-1.0.dist-info''] requires)) new_world))"
  by (simp add: example_defs prod_eq_iff)

subsection \<open>Claims about the build\<close>

text \<open>
  C4. Unpacking the downloaded archive must yield exactly one top-level entry: when the
  download and the extraction succeed and the extraction directory holds no entry or
  more than one, \<open>build_sdist_impl\<close> raises the \<open>ValueError\<close> of the failed
  unpacking of \<open>[src_dir]\<close>, after logging the listing as an error, and launches no
  build subprocess.
\<close>

theorem single_top_level_entry:
  assumes "http_stream E (url f) = Inr content"
      and "unpack_archive E content = Inr entries"
      and "length entries \<noteq> 1"
  shows "fst (build_sdist_impl E f tempdir w) =
           Inl (ValueError (if entries = [] then NotEnoughValues else TooManyValues))
         \<and> processes (snd (build_sdist_impl E f tempdir w)) = processes w
         \<and> log (snd (build_sdist_impl E f tempdir w)) =
             log w @ [Info (''Downloading '' @ filename f), Info (''Extracting '' @ filename f),
                      Error (str_path_list E (map (joinpath (joinpath tempdir ''extracted'')) entries))]"
  using assms
  by (cases entries rule: list.exhaust; simp add: build_sdist_impl_def logger_def Let_def split: list.splits)

theorem single_top_level_entry_witness:
  "fst (build_sdist_impl (example_env 0 [''foo-1.0'', ''PKG-INFO''] [''foo-1.0.dist-info''] [''bar>=1''])
          foo_sdist ''/tmp/tmp0'' new_world) = Inl (ValueError TooManyValues)
   \<and> processes (snd (build_sdist_impl (example_env 0 [''foo-1.0'', ''PKG-INFO''] [''foo-1.0.dist-info''] [''bar>=1''])
          foo_sdist ''/tmp/tmp0'' new_world)) = []
   \<and> fst (build_sdist_impl (example_env 0 [] [''foo-1.0.dist-info''] [''bar>=1''])
          foo_sdist ''/tmp/tmp0'' new_world) = Inl (ValueError NotEnoughValues)"
  using single_top_level_entry [of "example_env 0 [''foo-1.0'', ''PKG-INFO''] [''foo-1.0.dist-info''] [''bar>=1'']"
               foo_sdist "''sdist''" "[''foo-1.0'', ''PKG-INFO'']" "''/tmp/tmp0''" new_world]
        single_top_level_entry [of "example_env 0 [] [''foo-1.0.dist-info''] [''bar>=1'']"
               foo_sdist "''sdist''" "[]" "''/tmp/tmp0''" new_world]
  by (simp add: example_env_def foo_sdist_def new_world_def)

text \<open>
  C9. After the build backend has returned, \<open>build_sdist_impl\<close> reads the metadata of
  the one entry of the metadata directory whose name ends with \<open>.dist-info\<close>: with no
  such entry or with more than one it raises a \<open>ValueError\<close>, and with exactly one its
  result is that of reading the entry.
\<close>

theorem single_dist_info:
  assumes "http_stream E (url f) = Inr content"
      and "unpack_archive E content = Inr [src_dir]"
      and "run_builder E (project_builder E (joinpath (joinpath tempdir ''extracted'') src_dir)
             (joinpath tempdir ''metadata'')) new_capture = (Inr listing, c, ls)"
  shows "(length (filter (\<lambda>x. endswith x ''.dist-info'') listing) \<noteq> 1 \<longrightarrow>
            fst (build_sdist_impl E f tempdir w) =
              Inl (ValueError (if filter (\<lambda>x. endswith x ''.dist-info'') listing = []
                               then NotEnoughValues else TooManyValues)))
       \<and> (\<forall>d. filter (\<lambda>x. endswith x ''.dist-info'') listing = [d] \<longrightarrow>
            fst (build_sdist_impl E f tempdir w) =
              metadata_json E (joinpath (joinpath tempdir ''metadata'') d))"
  using assms
  by (simp add: build_sdist_impl_fst build_metadata_returned split: list.splits)

theorem single_dist_info_witness:
  "fst (build_sdist_impl (example_env 0 [''foo-1.0''] [''foo-1.0.dist-info'', ''PKG-INFO''] [''bar>=1''])
          foo_sdist ''/tmp/tmp0'' new_world) = Inr [''bar>=1'']
   \<and> fst (build_sdist_impl (example_env 0 [''foo-1.0''] [''PKG-INFO''] [''bar>=1''])
          foo_sdist ''/tmp/tmp0'' new_world) = Inl (ValueError NotEnoughValues)"
proof -
  let ?E = "example_env 0 [''foo-1.0''] [''foo-1.0.dist-info'', ''PKG-INFO''] [''bar>=1'']"
  let ?E' = "example_env 0 [''foo-1.0''] [''PKG-INFO''] [''bar>=1'']"
  have 1: "http_stream ?E (url foo_sdist) = Inr ''sdist''" "http_stream ?E' (url foo_sdist) = Inr ''sdist''"
    by (simp_all add: example_env_def)
  have 2: "unpack_archive ?E ''sdist'' = Inr [''foo-1.0'']" "unpack_archive ?E' ''sdist'' = Inr [''foo-1.0'']"
    by (simp_all add: example_env_def)
  have 3: "run_builder ?E (project_builder ?E (joinpath (joinpath ''/tmp/tmp0'' ''extracted'') ''foo-1.0'')
             (joinpath ''/tmp/tmp0'' ''metadata'')) new_capture
           = (Inr [''foo-1.0.dist-info'', ''PKG-INFO''], both_outputs, [first_hook, second_hook])"
    by (simp add: example_run_builder)
  have 4: "run_builder ?E' (project_builder ?E' (joinpath (joinpath ''/tmp/tmp0'' ''extracted'') ''foo-1.0'')
             (joinpath ''/tmp/tmp0'' ''metadata'')) new_capture
           = (Inr [''PKG-INFO''], both_outputs, [first_hook, second_hook])"
    by (simp add: example_run_builder)
  have 5: "metadata_json ?E p = Inr [''bar>=1'']" for p
    by (simp add: example_env_def)
  show ?thesis
    using single_dist_info [OF 1(1) 2(1) 3, where w = new_world] single_dist_info [OF 1(2) 2(2) 4, where w = new_world] 5
    by (simp add: endswith_def)
qed

text \<open>
  C5. The code attempts what the claim says and misses it. The \<open>except\<close> clause of
  \<open>build_sdist_impl\<close> turns a \<open>CalledProcessError\<close> into a \<open>RuntimeError\<close> with the
  file name and the captured output (\<open>build_metadata_called_process_error\<close>), but any
  other exception of the build library passes through as it is
  (\<open>build_metadata_other_error\<close>), and the library raises \<open>BuildBackendException\<close> in
  place of the runner's \<open>CalledProcessError\<close>. So here the second hook exits with
  status 1, its output is captured, and \<open>build_sdist_impl\<close> raises
  \<open>BuildBackendException\<close>: no error that names the file or carries the output, and
  nothing of the output in the log.
\<close>

theorem build_failure_not_reported:
  "run (example_env 1 [''foo-1.0''] [''foo-1.0.dist-info''] [''bar>=1''])
       (l_cmd second_hook) (l_cwd second_hook) (l_env second_hook)
     = Inr \<lparr>returncode = 1, p_stdout = ''prepare; '', p_stderr = ''warning: no license; ''\<rparr>
   \<and> processes (snd (build_sdist_impl (example_env 1 [''foo-1.0''] [''foo-1.0.dist-info''] [''bar>=1''])
          foo_sdist ''/tmp/tmp0'' new_world)) = [first_hook, second_hook]
   \<and> fst (build_sdist_impl (example_env 1 [''foo-1.0''] [''foo-1.0.dist-info''] [''bar>=1''])
          foo_sdist ''/tmp/tmp0'' new_world) = Inl (OtherError ''BuildBackendException'')
   \<and> log (snd (build_sdist_impl (example_env 1 [''foo-1.0''] [''foo-1.0.dist-info''] [''bar>=1''])
          foo_sdist ''/tmp/tmp0'' new_world))
       = [Info ''Downloading foo-1.0.tar.gz'', Info ''Extracting foo-1.0.tar.gz'',
          Info ''Building foo-1.0.tar.gz'']"
proof -
  let ?E = "example_env 1 [''foo-1.0''] [''foo-1.0.dist-info''] [''bar>=1'']"
  have 1: "http_stream ?E (url foo_sdist) = Inr ''sdist''"
    by (simp add: example_env_def)
  have 2: "unpack_archive ?E ''sdist'' = Inr [''foo-1.0'']"
    by (simp add: example_env_def)
  have 3: "run_builder ?E (project_builder ?E (joinpath (joinpath ''/tmp/tmp0'' ''extracted'') ''foo-1.0'')
             (joinpath ''/tmp/tmp0'' ''metadata'')) new_capture
           = (Inl (OtherError ''BuildBackendException''), both_outputs, [first_hook, second_hook])"
    by (simp add: example_run_builder)
  have raised: "fst (build_sdist_impl ?E foo_sdist ''/tmp/tmp0'' new_world)
                  = Inl (OtherError ''BuildBackendException'')"
    using build_metadata_other_error [OF 3] build_sdist_impl_fst [OF 1 2, of "''/tmp/tmp0''" new_world]
    by simp
  have exited: "run ?E (l_cmd second_hook) (l_cwd second_hook) (l_env second_hook)
     = Inr \<lparr>returncode = 1, p_stdout = ''prepare; '', p_stderr = ''warning: no license; ''\<rparr>"
    by (simp add: example_env_def second_hook_def hook_result_def)
  have launched: "processes (snd (build_sdist_impl ?E foo_sdist ''/tmp/tmp0'' new_world))
                    = [first_hook, second_hook]"
    by (simp add: example_defs first_hook_def second_hook_def)
  have logged: "log (snd (build_sdist_impl ?E foo_sdist ''/tmp/tmp0'' new_world))
       = [Info ''Downloading foo-1.0.tar.gz'', Info ''Extracting foo-1.0.tar.gz'',
          Info ''Building foo-1.0.tar.gz'']"
    by (simp add: example_defs)
  show ?thesis
    using exited launched raised logged by simp
qed

text \<open>
  C6. Whatever the build library does with the runner, the subprocesses launched are
  exactly the calls the library makes, in order, each with the command and directory of
  its call and with the inherited environment updated with the \<open>extra_environ\<close> of that
  call; and the capture after the build is the capture before it followed by the output
  of each of these subprocesses in that order. The subprocesses that one
  \<open>build_sdist_impl\<close> adds to the world are those of its call of the build library.
\<close>

theorem subprocess_environment_and_capture:
  "snd (snd (run_builder E b self)) = map (expected_launch E) (hook_calls E b)
   \<and> (\<forall>l \<in> set (snd (snd (run_builder E b self))).
         l_env l = (case l_extra l of None \<Rightarrow> os_environ E | Some x \<Rightarrow> os_environ E ++ x))
   \<and> stdout (fst (snd (run_builder E b self)))
       = stdout self @ concat (map (hook_stdout E) (hook_calls E b))
   \<and> stderr (fst (snd (run_builder E b self)))
       = stderr self @ concat (map (hook_stderr E) (hook_calls E b))
   \<and> (http_stream E (url f) = Inr content \<and> unpack_archive E content = Inr [src_dir] \<longrightarrow>
        processes (snd (build_sdist_impl E f tempdir w)) =
          processes w @ map (expected_launch E) (hook_calls E (project_builder E
             (joinpath (joinpath tempdir ''extracted'') src_dir) (joinpath tempdir ''metadata''))))"
proof -
  have launches: "snd (snd (run_builder E b self)) = map (expected_launch E) (hook_calls E b)"
    by (simp add: run_builder_refines)
  have env: "l_env (expected_launch E call)
               = (case l_extra (expected_launch E call) of
                    None \<Rightarrow> os_environ E | Some x \<Rightarrow> os_environ E ++ x)" for call
    by (cases call) (simp add: inherited_with_overrides_def)
  have every: "\<forall>l \<in> set (snd (snd (run_builder E b self))).
         l_env l = (case l_extra l of None \<Rightarrow> os_environ E | Some x \<Rightarrow> os_environ E ++ x)"
    unfolding launches using env by auto
  have captured: "stdout (fst (snd (run_builder E b self)))
       = stdout self @ concat (map (hook_stdout E) (hook_calls E b))
     \<and> stderr (fst (snd (run_builder E b self)))
       = stderr self @ concat (map (hook_stderr E) (hook_calls E b))"
    by (simp add: run_builder_refines)
  have build: "http_stream E (url f) = Inr content \<and> unpack_archive E content = Inr [src_dir] \<longrightarrow>
        processes (snd (build_sdist_impl E f tempdir w)) =
          processes w @ map (expected_launch E) (hook_calls E (project_builder E
             (joinpath (joinpath tempdir ''extracted'') src_dir) (joinpath tempdir ''metadata'')))"
    using build_sdist_impl_processes [of E f content src_dir tempdir w] by blast
  show ?thesis
    using launches every captured build by blast
qed

theorem subprocess_environment_and_capture_witness:
  "snd (snd (run_builder (example_env 0 [''foo-1.0''] [''foo-1.0.dist-info''] [''bar>=1''])
       (two_hooks [''foo-1.0.dist-info''] ''/tmp/tmp0/extracted/foo-1.0'' ''/tmp/tmp0/metadata'')
       new_capture)) = [first_hook, second_hook]
   \<and> stdout (fst (snd (run_builder (example_env 0 [''foo-1.0''] [''foo-1.0.dist-info''] [''bar>=1''])
       (two_hooks [''foo-1.0.dist-info''] ''/tmp/tmp0/extracted/foo-1.0'' ''/tmp/tmp0/metadata'')
       new_capture))) = ''requires; prepare; ''
   \<and> stderr (fst (snd (run_builder (example_env 0 [''foo-1.0''] [''foo-1.0.dist-info''] [''bar>=1''])
       (two_hooks [''foo-1.0.dist-info''] ''/tmp/tmp0/extracted/foo-1.0'' ''/tmp/tmp0/metadata'')
       new_capture))) = ''warning: no license; ''
   \<and> processes (snd (build_sdist_impl (example_env 0 [''foo-1.0''] [''foo-1.0.dist-info''] [''bar>=1''])
       foo_sdist ''/tmp/tmp0'' new_world)) = [first_hook, second_hook]"
proof -
  let ?E = "example_env 0 [''foo-1.0''] [''foo-1.0.dist-info''] [''bar>=1'']"
  let ?b = "two_hooks [''foo-1.0.dist-info''] ''/tmp/tmp0/extracted/foo-1.0'' ''/tmp/tmp0/metadata''"
  have b: "project_builder ?E (joinpath (joinpath ''/tmp/tmp0'' ''extracted'') ''foo-1.0'')
             (joinpath ''/tmp/tmp0'' ''metadata'') = ?b"
    by (simp add: example_env_def joinpath_def)
  have calls: "hook_calls ?E ?b
   = [([''python'', ''get_requires_for_build_wheel''], Some ''/tmp/tmp0/extracted/foo-1.0'', None),
      ([''python'', ''prepare_metadata_for_build_wheel''], Some ''/tmp/tmp0/extracted/foo-1.0'',
       Some [''PEP517_BUILD_BACKEND'' \<mapsto> ''setuptools.build_meta''])]"
    using example_hook_calls [of 0 "[''foo-1.0'']" "[''foo-1.0.dist-info'']" "[''bar>=1'']"]
    unfolding b .
  have given: "http_stream ?E (url foo_sdist) = Inr ''sdist''
               \<and> unpack_archive ?E ''sdist'' = Inr [''foo-1.0'']"
    by (simp add: example_env_def)
  have expected: "os_environ ?E = [''PATH'' \<mapsto> ''/usr/bin'']"
      "run ?E cmd cwd env = Inr (hook_result 0 cmd)" for cmd cwd env
    by (simp_all add: example_env_def)
  show ?thesis
    using subprocess_environment_and_capture
            [of ?E ?b new_capture foo_sdist "''sdist''" "''foo-1.0''" "''/tmp/tmp0''" new_world]
          given
    by (simp add: b calls expected inherited_with_overrides_def hook_result_def
          first_hook_def second_hook_def new_capture_def new_world_def)
qed

subsection \<open>Claims about the cache\<close>

text \<open>
  C3, as stated, fails: "the build driver runs at most once per sdist file against a
  shared cache". A build that fails stores nothing. With a cache that reads and writes,
  two calls of \<open>build_sdist\<close> for a file whose backend exits with status 1 both enter
  \<open>build_sdist_impl\<close> (two downloads) and launch both hooks again (four subprocesses).
\<close>

theorem build_runs_twice_counterexample:
  "cache_read (the_cache new_world) \<and> cache_write (the_cache new_world) \<and>
   count_list
     (log (snd (build_sdist (example_env 1 [''foo-1.0''] [''foo-1.0.dist-info''] [''bar>=1'']) foo_sdist
        (snd (build_sdist (example_env 1 [''foo-1.0''] [''foo-1.0.dist-info''] [''bar>=1''])
           foo_sdist new_world)))))
     (Info ''Downloading foo-1.0.tar.gz'') = 2 \<and>
   length (processes (snd (build_sdist (example_env 1 [''foo-1.0''] [''foo-1.0.dist-info''] [''bar>=1'']) foo_sdist
        (snd (build_sdist (example_env 1 [''foo-1.0''] [''foo-1.0.dist-info''] [''bar>=1''])
           foo_sdist new_world))))) = 4"
  by (simp add: example_defs)

text \<open>
  C3, as amended. When \<open>cache.get("sdist_build_metadata", filename + ".METADATA.json")\<close>
  returns a non-empty string, \<open>build_sdist\<close> sends no request, unpacks nothing,
  launches no subprocess, leaves the cache as it is and returns what parsing that string
  gives. Consequently, with a cache that reads and writes, once a call has built the
  metadata (\<open>build_sdist_impl\<close> returned, and \<open>json.dumps\<close> gave a non-empty
  string), the entry is there and a second call for the same file sends no request,
  unpacks nothing and launches no subprocess. Only a build that succeeded is stored: when
  \<open>build_sdist_impl\<close> raises, \<open>build_sdist\<close> raises the same exception and leaves the
  cache as it was.
\<close>

theorem cache_hit_runs_nothing:
  "(cache_get (the_cache w) ''sdist_build_metadata'' (filename f @ ''.METADATA.json'') = Some metadata
      \<and> metadata \<noteq> [] \<longrightarrow>
      fst (build_sdist E f w) =
        (case parse_metadata E metadata of
           Inl e \<Rightarrow> Inl (RuntimeError (parse_failure_message f))
         | Inr m \<Rightarrow> Inr m)
      \<and> requests (snd (build_sdist E f w)) = requests w
      \<and> unpacked (snd (build_sdist E f w)) = unpacked w
      \<and> processes (snd (build_sdist E f w)) = processes w
      \<and> the_cache (snd (build_sdist E f w)) = the_cache w)
   \<and> (cache_read (the_cache w) \<and> cache_write (the_cache w)
      \<and> cache_hit (the_cache w) f = None
      \<and> build_sdist_impl E f (mkdtemp E) w = (Inr j, w1) \<and> json_dumps E j \<noteq> [] \<longrightarrow>
      cache_get (the_cache (snd (build_sdist E f w))) ''sdist_build_metadata''
          (filename f @ ''.METADATA.json'') = Some (json_dumps E j)
      \<and> requests (snd (build_sdist E f (snd (build_sdist E f w)))) = requests (snd (build_sdist E f w))
      \<and> unpacked (snd (build_sdist E f (snd (build_sdist E f w)))) = unpacked (snd (build_sdist E f w))
      \<and> processes (snd (build_sdist E f (snd (build_sdist E f w)))) = processes (snd (build_sdist E f w)))
   \<and> (cache_hit (the_cache w) f = None \<and> build_sdist_impl E f (mkdtemp E) w = (Inl e, w1) \<longrightarrow>
      fst (build_sdist E f w) = Inl e
      \<and> the_cache (snd (build_sdist E f w)) = the_cache w)"
  (is "(?hit \<longrightarrow> ?nothing_runs) \<and> (?built \<longrightarrow> ?second_is_hit) \<and> (?failed \<longrightarrow> ?nothing_stored)")
proof (intro conjI)
  show "?hit \<longrightarrow> ?nothing_runs"
  proof (rule impI)
    assume ?hit
    then have "cache_hit (the_cache w) f = Some metadata"
      by (simp add: cache_hit_iff)
    then show ?nothing_runs
      by (rule build_sdist_hit_effects)
  qed
next
  show "?built \<longrightarrow> ?second_is_hit"
  proof (rule impI)
    assume built: ?built
    let ?w' = "snd (build_sdist E f w)"
    have stored: "store (the_cache ?w') (''sdist_build_metadata'', cache_key f) = Some (json_dumps E j)"
      and readable: "cache_read (the_cache ?w')"
      using built build_sdist_populates [of w f E j w1] by simp_all
    then have get: "cache_get (the_cache ?w') ''sdist_build_metadata'' (filename f @ ''.METADATA.json'')
                      = Some (json_dumps E j)"
      by (simp add: cache_get_def cache_key_def)
    with built have "cache_hit (the_cache ?w') f = Some (json_dumps E j)"
      by (simp add: cache_hit_iff)
    from build_sdist_hit_effects [OF this, of E] get
    show ?second_is_hit
      by simp
  qed
next
  show "?failed \<longrightarrow> ?nothing_stored"
  proof (rule impI)
    assume failed: ?failed
    show ?nothing_stored
      by (rule build_sdist_failed [OF conjunct1 [OF failed] conjunct2 [OF failed]])
  qed
qed

theorem cache_hit_runs_nothing_witness:
  "fst (build_sdist (example_env 0 [''foo-1.0''] [''foo-1.0.dist-info''] [''bar>=1'']) foo_sdist
          (cached_world ''[bar>=1]'')) = Inr [''[bar>=1]'']
   \<and> requests (snd (build_sdist (example_env 0 [''foo-1.0''] [''foo-1.0.dist-info''] [''bar>=1''])
          foo_sdist (cached_world ''[bar>=1]''))) = requests (cached_world ''[bar>=1]'')
   \<and> processes (snd (build_sdist (example_env 0 [''foo-1.0''] [''foo-1.0.dist-info''] [''bar>=1'']) foo_sdist
          (snd (build_sdist (example_env 0 [''foo-1.0''] [''foo-1.0.dist-info''] [''bar>=1''])
             foo_sdist new_world))))
       = processes (snd (build_sdist (example_env 0 [''foo-1.0''] [''foo-1.0.dist-info''] [''bar>=1''])
             foo_sdist new_world))
   \<and> the_cache (snd (build_sdist (example_env 1 [''foo-1.0''] [''foo-1.0.dist-info''] [''bar>=1''])
             foo_sdist new_world)) = the_cache new_world"
proof -
  let ?E = "example_env 0 [''foo-1.0''] [''foo-1.0.dist-info''] [''bar>=1'']"
  let ?F = "example_env 1 [''foo-1.0''] [''foo-1.0.dist-info''] [''bar>=1'']"
  have hit: "cache_get (the_cache (cached_world ''[bar>=1]'')) ''sdist_build_metadata''
               (filename foo_sdist @ ''.METADATA.json'') = Some ''[bar>=1]'' \<and> ''[bar>=1]'' \<noteq> []"
    by (simp add: example_defs)
  have parsed: "parse_metadata ?E ''[bar>=1]'' = Inr [''[bar>=1]'']"
    by (simp add: example_env_def)
  have miss: "cache_hit (the_cache new_world) foo_sdist = None"
    by (simp add: cache_hit_def cache_get_def new_world_def empty_cache_def)
  have built: "cache_read (the_cache new_world) \<and> cache_write (the_cache new_world)
      \<and> cache_hit (the_cache new_world) foo_sdist = None
      \<and> build_sdist_impl ?E foo_sdist (mkdtemp ?E) new_world
          = (Inr [''bar>=1''], snd (build_sdist_impl ?E foo_sdist (mkdtemp ?E) new_world))
      \<and> json_dumps ?E [''bar>=1''] \<noteq> []"
    using example_build_sdist_impl [of "[''bar>=1'']"] miss
    by (simp add: new_world_def empty_cache_def example_env_def)
  have failed: "cache_hit (the_cache new_world) foo_sdist = None
      \<and> build_sdist_impl ?F foo_sdist (mkdtemp ?F) new_world
          = (Inl (OtherError ''BuildBackendException''),
             snd (build_sdist_impl ?F foo_sdist (mkdtemp ?F) new_world))"
    using example_build_sdist_impl_failed [of "[''bar>=1'']"] miss by simp
  show ?thesis
    using cache_hit_runs_nothing [of "cached_world ''[bar>=1]''" foo_sdist "''[bar>=1]''" ?E] hit parsed
          cache_hit_runs_nothing [of new_world foo_sdist _ ?E "[''bar>=1'']"
                 "snd (build_sdist_impl ?E foo_sdist (mkdtemp ?E) new_world)"] built
          cache_hit_runs_nothing [of new_world foo_sdist _ ?F _
                 "snd (build_sdist_impl ?F foo_sdist (mkdtemp ?F) new_world)"
                 "OtherError ''BuildBackendException''"] failed
    by simp
qed

text \<open>
  C10. On a cache miss the string stored under the file's key is \<open>json.dumps\<close> of the
  built metadata, and it is that string that is parsed and returned. So a later call
  that is answered from the cache, the entry being the one the first call stored,
  returns the same result as the call that populated the cache.
\<close>

theorem cached_equals_built:
  assumes "cache_hit (the_cache w) f = None"
      and "build_sdist_impl E f (mkdtemp E) w = (Inr j, w1)"
      and "cache_write (the_cache w)"
      and "store (the_cache w2) (''sdist_build_metadata'', cache_key f) =
           store (the_cache (snd (build_sdist E f w))) (''sdist_build_metadata'', cache_key f)"
      and "cache_hit (the_cache w2) f \<noteq> None"
  shows "store (the_cache (snd (build_sdist E f w))) (''sdist_build_metadata'', cache_key f)
           = Some (json_dumps E j)
       \<and> fst (build_sdist E f w) =
           (case parse_metadata E (json_dumps E j) of
              Inl e \<Rightarrow> Inl (RuntimeError (parse_failure_message f))
            | Inr m \<Rightarrow> Inr m)
       \<and> fst (build_sdist E f w2) = fst (build_sdist E f w)"
proof -
  have stored: "store (the_cache (snd (build_sdist E f w))) (''sdist_build_metadata'', cache_key f)
           = Some (json_dumps E j)"
    using build_sdist_populates [OF assms(1,2,3)] by simp
  have first: "fst (build_sdist E f w) =
           (case parse_metadata E (json_dumps E j) of
              Inl e \<Rightarrow> Inl (RuntimeError (parse_failure_message f))
            | Inr m \<Rightarrow> Inr m)"
    by (simp add: build_sdist_miss [OF assms(1,2)] parse_built_metadata_fst)
  from assms(5) obtain v where v: "cache_hit (the_cache w2) f = Some v" by auto
  then have "store (the_cache w2) (''sdist_build_metadata'', cache_key f) = Some v"
    by (auto simp: cache_hit_def cache_get_def split: option.splits if_splits)
  with assms(4) stored have "v = json_dumps E j" by simp
  with v have "fst (build_sdist E f w2) =
           (case parse_metadata E (json_dumps E j) of
              Inl e \<Rightarrow> Inl (RuntimeError (parse_failure_message f))
            | Inr m \<Rightarrow> Inr m)"
    by (simp add: build_sdist_hit parse_built_metadata_fst)
  with stored first show ?thesis by simp
qed

theorem cached_equals_built_witness:
  "fst (build_sdist (example_env 0 [''foo-1.0''] [''foo-1.0.dist-info''] [''bar>=1'']) foo_sdist
          (cached_world ''[bar>=1]''))
   = fst (build_sdist (example_env 0 [''foo-1.0''] [''foo-1.0.dist-info''] [''bar>=1'']) foo_sdist new_world)"
proof -
  let ?E = "example_env 0 [''foo-1.0''] [''foo-1.0.dist-info''] [''bar>=1'']"
  have miss: "cache_hit (the_cache new_world) foo_sdist = None"
    by (simp add: cache_hit_def cache_get_def new_world_def empty_cache_def)
  have writable: "cache_write (the_cache new_world)"
    by (simp add: new_world_def empty_cache_def)
  have same: "store (the_cache (cached_world ''[bar>=1]'')) (''sdist_build_metadata'', cache_key foo_sdist) =
           store (the_cache (snd (build_sdist ?E foo_sdist new_world))) (''sdist_build_metadata'', cache_key foo_sdist)"
    by (simp add: example_defs)
  have answered: "cache_hit (the_cache (cached_world ''[bar>=1]'')) foo_sdist \<noteq> None"
    by (simp add: example_defs)
  show ?thesis
    using cached_equals_built [OF miss example_build_sdist_impl writable same answered]
    by simp
qed

text \<open>
  C8, as stated, fails: "classified as MetadataCorrupt". The module defines no exception
  class. For a record that is built and does not parse, \<open>build_sdist\<close> raises an
  exception of class \<open>RuntimeError\<close> (line 80).
\<close>

theorem metadata_corrupt_class_counterexample:
  "map_sum exception_class id
     (fst (build_sdist (example_env 0 [''foo-1.0''] [''foo-1.0.dist-info''] []) foo_sdist new_world))
     = Inl ''RuntimeError''
   \<and> map_sum exception_class id
     (fst (build_sdist (example_env 0 [''foo-1.0''] [''foo-1.0.dist-info''] []) foo_sdist new_world))
     \<noteq> Inl ''MetadataCorrupt''"
  by (simp add: example_defs)

text \<open>
  C8, as amended. If the metadata string, retrieved from the cache or produced by the
  build, fails to parse, \<open>build_sdist\<close> raises a \<open>RuntimeError\<close> whose message names
  the sdist file. It differs from every error that \<open>build_sdist_impl\<close> itself raises for
  a failed build: the \<open>RuntimeError\<close> with the build-failure message, and the
  \<open>ValueError\<close> for a wrong number of entries.
\<close>

theorem parse_failure_reported:
  assumes "parse_metadata E metadata = Inl e"
      and "cache_hit (the_cache w) f = Some metadata
           \<or> (cache_hit (the_cache w) f = None
              \<and> (\<exists>j w1. build_sdist_impl E f (mkdtemp E) w = (Inr j, w1) \<and> json_dumps E j = metadata))"
  shows "fst (build_sdist E f w) = Inl (RuntimeError (parse_failure_message f))
       \<and> map_sum exception_class id (fst (build_sdist E f w)) = Inl ''RuntimeError''
       \<and> sublist (filename f) (parse_failure_message f)
       \<and> fst (build_sdist E f w) \<noteq> Inl (RuntimeError (build_failure_message E' f' e' c'))
       \<and> fst (build_sdist E f w) \<noteq> Inl (ValueError m)"
proof -
  have raised: "fst (build_sdist E f w) = Inl (RuntimeError (parse_failure_message f))"
    using assms by (auto simp: build_sdist_hit build_sdist_miss parse_built_metadata_fst)
  show ?thesis
    unfolding raised
    using parse_failure_message_names [of f] parse_failure_is_no_build_failure [of f E' f' e' c']
    by simp
qed

theorem parse_failure_reported_witness:
  "fst (build_sdist (example_env 0 [''foo-1.0''] [''foo-1.0.dist-info''] []) foo_sdist (cached_world ''[]''))
     = Inl (RuntimeError ''Failed to parse sdist built metadata for foo-1.0.tar.gz, this is most likely a bug'')
   \<and> fst (build_sdist (example_env 0 [''foo-1.0''] [''foo-1.0.dist-info''] []) foo_sdist new_world)
     = Inl (RuntimeError ''Failed to parse sdist built metadata for foo-1.0.tar.gz, this is most likely a bug'')"
proof -
  let ?E = "example_env 0 [''foo-1.0''] [''foo-1.0.dist-info''] []"
  have corrupt: "parse_metadata ?E ''[]'' = Inl (OtherError ''ValidationError'')"
    by (simp add: example_env_def)
  have hit: "cache_hit (the_cache (cached_world ''[]'')) foo_sdist = Some ''[]''"
    by (simp add: example_defs)
  have miss: "cache_hit (the_cache new_world) foo_sdist = None
              \<and> (\<exists>j w1. build_sdist_impl ?E foo_sdist (mkdtemp ?E) new_world = (Inr j, w1)
                         \<and> json_dumps ?E j = ''[]'')"
    using example_build_sdist_impl [of "[]"]
    by (auto simp: cache_hit_def cache_get_def new_world_def empty_cache_def example_env_def)
  have msg: "parse_failure_message foo_sdist
             = ''Failed to parse sdist built metadata for foo-1.0.tar.gz, this is most likely a bug''"
    by (simp add: parse_failure_message_def foo_sdist_def)
  show ?thesis
    using parse_failure_reported [OF corrupt disjI1 [OF hit], where E' = ?E and f' = foo_sdist
                and e' = "OtherError []" and c' = new_capture and m = NotEnoughValues]
          parse_failure_reported [OF corrupt disjI2 [OF miss], where E' = ?E and f' = foo_sdist
                and e' = "OtherError []" and c' = new_capture and m = NotEnoughValues] msg
    by simp
qed

subsection \<open>Claims about the requirement fixup\<close>

lemma add_missing_comma_head: "\<exists>ys. add_missing_comma (x # xs) = x # ys"
  by (cases xs) auto

lemma add_missing_comma_no_digit:
  "\<not> is_digit x \<Longrightarrow> add_missing_comma (x # xs) = x # add_missing_comma xs"
  by (cases xs) auto

lemma add_missing_comma_idempotent:
  "add_missing_comma (add_missing_comma s) = add_missing_comma s"
proof (induction s rule: add_missing_comma.induct)
  case (1 c d cs)
  obtain ys where ys: "add_missing_comma (d # cs) = d # ys"
    using add_missing_comma_head by blast
  show ?case
  proof (cases "is_digit c \<and> is_comparator d")
    case True
    have comma: "\<not> is_digit (CHR '','')" "\<not> is_comparator (CHR '','')"
      by (simp_all add: is_digit_def is_comparator_def)
    have "add_missing_comma (c # CHR '','' # d # ys) = c # CHR '','' # add_missing_comma (d # ys)"
      using comma by (simp add: add_missing_comma_no_digit)
    with True 1 ys show ?thesis by simp
  next
    case False
    with 1 ys show ?thesis by auto
  qed
qed simp_all

lemma missing_comma_warning_names:
  "sublist requirement (missing_comma_warning requirement debug_source)
   \<and> sublist debug_source (missing_comma_warning requirement debug_source)"
proof -
  have 1: "missing_comma_warning requirement debug_source =
           ''Requirement `'' @ requirement @ (''` for '' @ debug_source @ '' is invalid (missing comma)'')"
    by (simp add: missing_comma_warning_def)
  have 2: "missing_comma_warning requirement debug_source =
           (''Requirement `'' @ requirement @ ''` for '') @ debug_source @ '' is invalid (missing comma)''"
    by (simp add: missing_comma_warning_def)
  show ?thesis
    using sublist_middle [of requirement] sublist_middle [of debug_source] by (metis 1 2)
qed

lemma strict_parse_examples:
  "strict_parse ''elasticsearch-dsl (>=7.2.0<8.0.0)'' = Inl ''invalid version specifier''"
  "strict_parse ''elasticsearch-dsl (>=7.2.0,<8.0.0)'' =
     Inr \<lparr>name = ''elasticsearch-dsl'', version_or_url = [(''>='', ''7.2.0''), (''<'', ''8.0.0'')]\<rparr>"
  "strict_parse ''foo (>=1.0'' = Inl ''invalid version specifier''"
  "strict_parse (add_missing_comma ''foo (>=1.0'') = Inl ''invalid version specifier''"
  by code_simp+

text \<open>
  C2. The fixup first parses strictly and returns the result without a warning; on
  failure it parses the string repaired by \<open>add_missing_comma\<close>, and if that succeeds
  it returns the result with exactly one warning, which contains the raw string and the
  context; if that fails too it surfaces the first error. The repair turns
  \<open>elasticsearch-dsl (>=7.2.0<8.0.0)\<close> into the correctly spelled string, so for every
  strict parser that rejects the former and accepts the latter the fixup returns what
  the correctly spelled string parses to, with the warning the test expects.
\<close>

theorem fixup_repairs_missing_comma:
  "(parse requirement = Inr r \<longrightarrow>
      parse_requirement_fixup parse requirement debug_source = (Inr r, []))
   \<and> (parse requirement = Inl e \<and> parse (add_missing_comma requirement) = Inr r \<longrightarrow>
      parse_requirement_fixup parse requirement debug_source
        = (Inr r, [missing_comma_warning requirement debug_source])
      \<and> sublist requirement (missing_comma_warning requirement debug_source)
      \<and> sublist debug_source (missing_comma_warning requirement debug_source))
   \<and> (parse requirement = Inl e \<and> parse (add_missing_comma requirement) = Inl e' \<longrightarrow>
      parse_requirement_fixup parse requirement debug_source = (Inl e, []))
   \<and> add_missing_comma ''elasticsearch-dsl (>=7.2.0<8.0.0)'' = ''elasticsearch-dsl (>=7.2.0,<8.0.0)''
   \<and> (parse ''elasticsearch-dsl (>=7.2.0<8.0.0)'' = Inl e
      \<and> parse ''elasticsearch-dsl (>=7.2.0,<8.0.0)'' = Inr r \<longrightarrow>
      parse_requirement_fixup parse ''elasticsearch-dsl (>=7.2.0<8.0.0)'' ''django-elasticsearch-dsl 7.2.2''
        = (parse ''elasticsearch-dsl (>=7.2.0,<8.0.0)'',
           [''Requirement `elasticsearch-dsl (>=7.2.0<8.0.0)` for django-elasticsearch-dsl 7.2.2 is invalid (missing comma)'']))"
proof -
  have repaired: "add_missing_comma ''elasticsearch-dsl (>=7.2.0<8.0.0)'' = ''elasticsearch-dsl (>=7.2.0,<8.0.0)''"
    by (simp add: is_digit_def is_comparator_def)
  have valid: "parse_requirement_fixup p s d = (Inr x, [])" if "p s = Inr x"
    for p :: "string \<Rightarrow> 'e + 'r" and s d x
    using that by (simp add: parse_requirement_fixup_def)
  have fixed: "parse_requirement_fixup p s d = (Inr x, [missing_comma_warning s d])"
    if "p s = Inl y" and "p (add_missing_comma s) = Inr x"
    for p :: "string \<Rightarrow> 'e + 'r" and s d x y
    using that by (simp add: parse_requirement_fixup_def)
  have hopeless: "parse_requirement_fixup p s d = (Inl y, [])"
    if "p s = Inl y" and "p (add_missing_comma s) = Inl y'"
    for p :: "string \<Rightarrow> 'e + 'r" and s d y y'
    using that by (simp add: parse_requirement_fixup_def)
  have wording: "missing_comma_warning ''elasticsearch-dsl (>=7.2.0<8.0.0)'' ''django-elasticsearch-dsl 7.2.2''
    = ''Requirement `elasticsearch-dsl (>=7.2.0<8.0.0)` for django-elasticsearch-dsl 7.2.2 is invalid (missing comma)''"
    by (simp add: missing_comma_warning_def)
  have example: "parse_requirement_fixup parse ''elasticsearch-dsl (>=7.2.0<8.0.0)'' ''django-elasticsearch-dsl 7.2.2''
        = (parse ''elasticsearch-dsl (>=7.2.0,<8.0.0)'',
           [''Requirement `elasticsearch-dsl (>=7.2.0<8.0.0)` for django-elasticsearch-dsl 7.2.2 is invalid (missing comma)''])"
    if "parse ''elasticsearch-dsl (>=7.2.0<8.0.0)'' = Inl e"
      and "parse ''elasticsearch-dsl (>=7.2.0,<8.0.0)'' = Inr r"
  proof -
    have "parse (add_missing_comma ''elasticsearch-dsl (>=7.2.0<8.0.0)'') = Inr r"
      unfolding repaired by (rule that(2))
    from fixed [OF that(1) this, of "''django-elasticsearch-dsl 7.2.2''"] show ?thesis
      by (simp only: wording that(2))
  qed
  have 1: "parse requirement = Inr r \<longrightarrow>
      parse_requirement_fixup parse requirement debug_source = (Inr r, [])"
  proof (rule impI)
    assume "parse requirement = Inr r"
    then show "parse_requirement_fixup parse requirement debug_source = (Inr r, [])"
      by (rule valid)
  qed
  have 2: "parse requirement = Inl e \<and> parse (add_missing_comma requirement) = Inr r \<longrightarrow>
      parse_requirement_fixup parse requirement debug_source
        = (Inr r, [missing_comma_warning requirement debug_source])
      \<and> sublist requirement (missing_comma_warning requirement debug_source)
      \<and> sublist debug_source (missing_comma_warning requirement debug_source)"
  proof (rule impI)
    assume both: "parse requirement = Inl e \<and> parse (add_missing_comma requirement) = Inr r"
    show "parse_requirement_fixup parse requirement debug_source
        = (Inr r, [missing_comma_warning requirement debug_source])
      \<and> sublist requirement (missing_comma_warning requirement debug_source)
      \<and> sublist debug_source (missing_comma_warning requirement debug_source)"
      by (rule conjI [OF fixed [OF conjunct1 [OF both] conjunct2 [OF both]]
            missing_comma_warning_names [of requirement debug_source]])
  qed
  have 3: "parse requirement = Inl e \<and> parse (add_missing_comma requirement) = Inl e' \<longrightarrow>
      parse_requirement_fixup parse requirement debug_source = (Inl e, [])"
  proof (rule impI)
    assume both: "parse requirement = Inl e \<and> parse (add_missing_comma requirement) = Inl e'"
    show "parse_requirement_fixup parse requirement debug_source = (Inl e, [])"
      by (rule hopeless [OF conjunct1 [OF both] conjunct2 [OF both]])
  qed
  have 4: "parse ''elasticsearch-dsl (>=7.2.0<8.0.0)'' = Inl e
      \<and> parse ''elasticsearch-dsl (>=7.2.0,<8.0.0)'' = Inr r \<longrightarrow>
      parse_requirement_fixup parse ''elasticsearch-dsl (>=7.2.0<8.0.0)'' ''django-elasticsearch-dsl 7.2.2''
        = (parse ''elasticsearch-dsl (>=7.2.0,<8.0.0)'',
           [''Requirement `elasticsearch-dsl (>=7.2.0<8.0.0)` for django-elasticsearch-dsl 7.2.2 is invalid (missing comma)''])"
  proof (rule impI)
    assume both: "parse ''elasticsearch-dsl (>=7.2.0<8.0.0)'' = Inl e
      \<and> parse ''elasticsearch-dsl (>=7.2.0,<8.0.0)'' = Inr r"
    show "parse_requirement_fixup parse ''elasticsearch-dsl (>=7.2.0<8.0.0)'' ''django-elasticsearch-dsl 7.2.2''
        = (parse ''elasticsearch-dsl (>=7.2.0,<8.0.0)'',
           [''Requirement `elasticsearch-dsl (>=7.2.0<8.0.0)` for django-elasticsearch-dsl 7.2.2 is invalid (missing comma)''])"
      by (rule example [OF conjunct1 [OF both] conjunct2 [OF both]])
  qed
  show ?thesis
    by (rule conjI [OF 1 conjI [OF 2 conjI [OF 3 conjI [OF repaired 4]]]])
qed

theorem fixup_repairs_missing_comma_witness:
  "parse_requirement_fixup strict_parse ''elasticsearch-dsl (>=7.2.0,<8.0.0)'' ''django-elasticsearch-dsl 7.2.2''
     = (Inr \<lparr>name = ''elasticsearch-dsl'', version_or_url = [(''>='', ''7.2.0''), (''<'', ''8.0.0'')]\<rparr>, [])
   \<and> parse_requirement_fixup strict_parse ''elasticsearch-dsl (>=7.2.0<8.0.0)'' ''django-elasticsearch-dsl 7.2.2''
     = (Inr \<lparr>name = ''elasticsearch-dsl'', version_or_url = [(''>='', ''7.2.0''), (''<'', ''8.0.0'')]\<rparr>,
        [''Requirement `elasticsearch-dsl (>=7.2.0<8.0.0)` for django-elasticsearch-dsl 7.2.2 is invalid (missing comma)''])
   \<and> parse_requirement_fixup strict_parse ''foo (>=1.0'' ''bar 1.0'' = (Inl ''invalid version specifier'', [])"
  using fixup_repairs_missing_comma [of strict_parse "''elasticsearch-dsl (>=7.2.0,<8.0.0)''"
               "\<lparr>name = ''elasticsearch-dsl'', version_or_url = [(''>='', ''7.2.0''), (''<'', ''8.0.0'')]\<rparr>"
               "''django-elasticsearch-dsl 7.2.2''" "''invalid version specifier''"]
        fixup_repairs_missing_comma [of strict_parse "''foo (>=1.0''" _ "''bar 1.0''" "''invalid version specifier''"
               "''invalid version specifier''"]
        strict_parse_examples
  by simp

text \<open>
  C7. Fixup stability. A string that parses strictly is returned as parsed, without a
  warning. For a string that only the repair makes parse, the fixup of the repaired
  string gives the same requirement as the fixup of the string itself, now without a
  warning; and repairing twice is repairing once.
\<close>

theorem fixup_stable:
  "(parse s = Inr r \<longrightarrow> parse_requirement_fixup parse s debug_source = (Inr r, []))
   \<and> (parse s = Inl e \<and> parse (add_missing_comma s) = Inr r \<longrightarrow>
      parse_requirement_fixup parse (add_missing_comma s) debug_source = (Inr r, [])
      \<and> fst (parse_requirement_fixup parse (add_missing_comma s) debug_source)
          = fst (parse_requirement_fixup parse s debug_source))
   \<and> add_missing_comma (add_missing_comma s) = add_missing_comma s"
  by (simp add: parse_requirement_fixup_def add_missing_comma_idempotent)

theorem fixup_stable_witness:
  "parse_requirement_fixup strict_parse ''elasticsearch-dsl (>=7.2.0,<8.0.0)'' ''django-elasticsearch-dsl 7.2.2''
     = (strict_parse ''elasticsearch-dsl (>=7.2.0,<8.0.0)'', [])
   \<and> fst (parse_requirement_fixup strict_parse (add_missing_comma ''elasticsearch-dsl (>=7.2.0<8.0.0)'')
            ''django-elasticsearch-dsl 7.2.2'')
     = fst (parse_requirement_fixup strict_parse ''elasticsearch-dsl (>=7.2.0<8.0.0)''
            ''django-elasticsearch-dsl 7.2.2'')"
proof -
  have repaired: "add_missing_comma ''elasticsearch-dsl (>=7.2.0<8.0.0)'' = ''elasticsearch-dsl (>=7.2.0,<8.0.0)''"
    by (simp add: is_digit_def is_comparator_def)
  show ?thesis
    using fixup_stable [of strict_parse "''elasticsearch-dsl (>=7.2.0,<8.0.0)''"
               "\<lparr>name = ''elasticsearch-dsl'', version_or_url = [(''>='', ''7.2.0''), (''<'', ''8.0.0'')]\<rparr>"
               "''django-elasticsearch-dsl 7.2.2''" "''invalid version specifier''"]
          fixup_stable [of strict_parse "''elasticsearch-dsl (>=7.2.0<8.0.0)''"
               "\<lparr>name = ''elasticsearch-dsl'', version_or_url = [(''>='', ''7.2.0''), (''<'', ''8.0.0'')]\<rparr>"
               "''django-elasticsearch-dsl 7.2.2''" "''invalid version specifier''"]
          strict_parse_examples(1,2) repaired
    by simp
qed

subsection \<open>Claims about the order of a resolution\<close>











end
